theory Spec2Isabelle
  imports Complex_Main
begin

section \<open>Numbers, vectors and errors\<close>

text \<open>
  The attribute buffers of fresnel hold 32-bit floats. The development idealises them as
  real numbers: every value is stored exactly and arithmetic does not round. All concrete
  values that occur below (halves and small integers) are exact in float32 as well.

  A point or a colour is a row of three numbers.
\<close>

type_synonym vec3 = "real \<times> real \<times> real"

fun vx :: "vec3 \<Rightarrow> real" where "vx (x, y, z) = x"
fun vy :: "vec3 \<Rightarrow> real" where "vy (x, y, z) = y"
fun vz :: "vec3 \<Rightarrow> real" where "vz (x, y, z) = z"

fun vadd :: "vec3 \<Rightarrow> vec3 \<Rightarrow> vec3" where
  "vadd (a, b, c) (d, e, f) = (a + d, b + e, c + f)"

fun vneg :: "vec3 \<Rightarrow> vec3" where
  "vneg (a, b, c) = (- a, - b, - c)"

fun vdiv :: "vec3 \<Rightarrow> real \<Rightarrow> vec3" where
  "vdiv (a, b, c) s = (a / s, b / s, c / s)"

text \<open>Adding or subtracting a scalar broadcasts it over the three components.\<close>

fun vadds :: "vec3 \<Rightarrow> real \<Rightarrow> vec3" where
  "vadds (a, b, c) s = (a + s, b + s, c + s)"

fun vsubs :: "vec3 \<Rightarrow> real \<Rightarrow> vec3" where
  "vsubs (a, b, c) s = (a - s, b - s, c - s)"

fun vmin :: "vec3 \<Rightarrow> vec3 \<Rightarrow> vec3" where
  "vmin (a, b, c) (d, e, f) = (min a d, min b e, min c f)"

fun vmax :: "vec3 \<Rightarrow> vec3 \<Rightarrow> vec3" where
  "vmax (a, b, c) (d, e, f) = (max a d, max b e, max c f)"

text \<open>
  The Python exceptions that the modelled code raises or lets through:
  \<open>RuntimeError\<close> from \<open>Box._generate_points\<close>, \<open>AttributeError\<close> from the setter of
  \<open>Box.points\<close>, \<open>TypeError\<close> from \<open>len(None)\<close>, and numpy's \<open>IndexError\<close> and
  \<open>ValueError\<close>.
\<close>

datatype error = RuntimeError | AttributeError | TypeError | IndexError | ValueError

section \<open>The fragment of numpy that the code uses\<close>

text \<open>
  A buffer is seen by numpy as an array whose leading axis has one row per primitive; the
  type of a row fixes the trailing axes. An index into the leading axis is an integer
  \<open>a[i]\<close> or a slice \<open>a[start:stop]\<close> with optional bounds; \<open>a[:]\<close> is the slice
  without bounds.
\<close>

datatype index = At int | Slice "int option" "int option"

abbreviation Full :: index where "Full \<equiv> Slice None None"

text \<open>
  The value of a read or the right-hand side of a write: a single row (which a slice
  write broadcasts to every selected row) or a list of rows.
\<close>

datatype 'a data = Row 'a | Rows "'a list"

text \<open>Python's resolution of one slice bound against a length \<open>n\<close> (step 1).\<close>

definition slice_bound :: "nat \<Rightarrow> int option \<Rightarrow> nat \<Rightarrow> nat" where
  "slice_bound n b dflt =
     (case b of
        None \<Rightarrow> dflt
      | Some i \<Rightarrow> nat (min (int n) (max 0 (if i < 0 then i + int n else i))))"

text \<open>Python's resolution of an integer index: negative indices count from the end.\<close>

definition resolve_index :: "nat \<Rightarrow> int \<Rightarrow> error + nat" where
  "resolve_index n i =
     (let j = (if i < 0 then i + int n else i)
      in if 0 \<le> j \<and> j < int n then Inr (nat j) else Inl IndexError)"

text \<open>\<open>a[slice]\<close>: an integer out of range raises, a slice is clamped.\<close>

definition np_getitem :: "'a list \<Rightarrow> index \<Rightarrow> error + 'a data" where
  "np_getitem a slice =
     (case slice of
        At i \<Rightarrow>
          (case resolve_index (length a) i of
             Inl e \<Rightarrow> Inl e
           | Inr j \<Rightarrow> Inr (Row (a ! j)))
      | Slice s e \<Rightarrow>
          (let lo = slice_bound (length a) s 0;
               hi = slice_bound (length a) e (length a)
           in Inr (Rows (take (hi - lo) (drop lo a)))))"

text \<open>
  \<open>a[slice] = data\<close>. The index is resolved first; then the data is broadcast to the
  selected rows: a single row goes to every selected row, a list of rows must have as
  many rows as are selected, or exactly one. Anything else is numpy's broadcast error.
\<close>

definition np_setitem :: "'a list \<Rightarrow> index \<Rightarrow> 'a data \<Rightarrow> error + 'a list" where
  "np_setitem a slice d =
     (case slice of
        At i \<Rightarrow>
          (case resolve_index (length a) i of
             Inl e \<Rightarrow> Inl e
           | Inr j \<Rightarrow>
               (case d of
                  Row x \<Rightarrow> Inr (a[j := x])
                | Rows xs \<Rightarrow>
                    (case xs of
                       [x] \<Rightarrow> Inr (a[j := x])
                     | _ \<Rightarrow> Inl ValueError)))
      | Slice s e \<Rightarrow>
          (let lo = slice_bound (length a) s 0;
               hi = slice_bound (length a) e (length a);
               k = hi - lo
           in case d of
                Row x \<Rightarrow> Inr (take lo a @ replicate k x @ drop (lo + k) a)
              | Rows xs \<Rightarrow>
                  if length xs = k then Inr (take lo a @ xs @ drop (lo + k) a)
                  else (case xs of
                          [x] \<Rightarrow> Inr (take lo a @ replicate k x @ drop (lo + k) a)
                        | _ \<Rightarrow> Inl ValueError)))"

text \<open>
  \<open>numpy.min(a, axis=0)\<close> and \<open>numpy.max(a, axis=0)\<close>. A reduction over an axis of
  length zero has no identity and raises \<open>ValueError\<close>.
\<close>

fun amin :: "real list \<Rightarrow> error + real" where
  "amin [] = Inl ValueError"
| "amin (x # xs) = Inr (fold min xs x)"

fun amax :: "real list \<Rightarrow> error + real" where
  "amax [] = Inl ValueError"
| "amax (x # xs) = Inr (fold max xs x)"

fun amin_rows :: "vec3 list \<Rightarrow> error + vec3" where
  "amin_rows [] = Inl ValueError"
| "amin_rows (v # vs) = Inr (fold vmin vs v)"

fun amax_rows :: "vec3 list \<Rightarrow> error + vec3" where
  "amax_rows [] = Inl ValueError"
| "amax_rows (v # vs) = Inr (fold vmax vs v)"

text \<open>
  \<open>A - r\<close> and \<open>A + r\<close> for \<open>A\<close> of shape \<open>(N, 3)\<close> and \<open>r\<close> of shape \<open>(M, 1)\<close>:
  row by row when \<open>N = M\<close>; an axis of length one is stretched; otherwise the shapes do
  not broadcast.
\<close>

definition broadcast_rows ::
  "(vec3 \<Rightarrow> real \<Rightarrow> vec3) \<Rightarrow> vec3 list \<Rightarrow> real list \<Rightarrow> error + vec3 list" where
  "broadcast_rows f A r =
     (if length A = length r then Inr (map2 f A r)
      else (case r of
              [s] \<Rightarrow> Inr (map (\<lambda>v. f v s) A)
            | _ \<Rightarrow> (case A of
                      [v] \<Rightarrow> Inr (map (\<lambda>s. f v s) r)
                    | _ \<Rightarrow> Inl ValueError)))"

section \<open>Buffer views: \<open>fresnel.util.array\<close>\<close>

text \<open>
  Modelled from the spec: the buffer objects belong to the backend and are not part of the
  Python sources, which only call \<open>map()\<close> and \<open>unmap()\<close> on them and read or write
  the memory in between. \<open>map()\<close> opens the scoped access to the memory and \<open>unmap()\<close>
  releases it. The model of a buffer keeps its memory, its element type and whether it is
  currently mapped.
\<close>

datatype dtype = Float32 | UInt8

record 'a buffer =
  mem :: "'a list"
  elem_type :: dtype
  mapped :: bool

definition buffer_map :: "'a buffer \<Rightarrow> 'a buffer" where
  "buffer_map b = b\<lparr>mapped := True\<rparr>"

definition buffer_unmap :: "'a buffer \<Rightarrow> 'a buffer" where
  "buffer_unmap b = b\<lparr>mapped := False\<rparr>"

text \<open>
  A view holds its buffer and \<open>geom\<close>, the owning geometry or \<open>None\<close>. The only thing a
  view does with the geometry is to call \<open>update()\<close> on its native handle, so the model
  keeps, for the geometry, the number of \<open>update()\<close> calls its handle has received: the
  count an instrumented backend would report.
\<close>

record 'a array =
  buf :: "'a buffer"
  geom :: "nat option"

text \<open>
  Modelled from the spec: \<open>update()\<close> is a method of the backend's native geometry
  handle and not part of the Python sources; it tells the backend to refresh its
  acceleration structure before the next render. All that is recorded of it is that it
  was called.
\<close>

definition update :: "nat \<Rightarrow> nat" where
  "update calls = Suc calls"

text \<open>
  \<open>array.__setitem__\<close>. When the element copy raises, the exception leaves the method
  at that statement: neither \<open>unmap()\<close> nor \<open>update()\<close> is reached. The result is the
  outcome together with the view's objects as the call leaves them.
\<close>

definition array_setitem ::
  "'a array \<Rightarrow> index \<Rightarrow> 'a data \<Rightarrow> (error + unit) \<times> 'a array" where
  "array_setitem self slice d =
     (let b = buffer_map (buf self)
      in case np_setitem (mem b) slice d of
           Inl e \<Rightarrow> (Inl e, self\<lparr>buf := b\<rparr>)
         | Inr a \<Rightarrow>
             (let b' = buffer_unmap (b\<lparr>mem := a\<rparr>)
              in (Inr (), self\<lparr>buf := b', geom := map_option update (geom self)\<rparr>)))"

text \<open>\<open>array.__getitem__\<close>: the value returned is a copy.\<close>

definition array_getitem ::
  "'a array \<Rightarrow> index \<Rightarrow> (error + 'a data) \<times> 'a array" where
  "array_getitem self slice =
     (let b = buffer_map (buf self)
      in case np_getitem (mem b) slice of
           Inl e \<Rightarrow> (Inl e, self\<lparr>buf := b\<rparr>)
         | Inr v \<Rightarrow> (Inr v, self\<lparr>buf := buffer_unmap b\<rparr>))"

text \<open>
  \<open>array.shape\<close> and \<open>array.dtype\<close>. The shape is reported by its leading dimension;
  the trailing dimensions are fixed by the row type.
\<close>

definition array_shape :: "'a array \<Rightarrow> nat \<times> 'a array" where
  "array_shape self =
     (let b = buffer_map (buf self);
          a = mem b;
          b' = buffer_unmap b
      in (length a, self\<lparr>buf := b'\<rparr>))"

definition array_dtype :: "'a array \<Rightarrow> dtype \<times> 'a array" where
  "array_dtype self =
     (let b = buffer_map (buf self);
          t = elem_type b;
          b' = buffer_unmap b
      in (t, self\<lparr>buf := b'\<rparr>))"

section \<open>Sequencing calls that may raise\<close>

text \<open>
  A method call yields an outcome and the state it leaves behind. An exception ends the
  sequence at the statement that raised it, with the state as it was then.
\<close>

definition and_then ::
  "(error + 'r) \<times> 's \<Rightarrow> ('r \<Rightarrow> 's \<Rightarrow> (error + 'q) \<times> 's) \<Rightarrow> (error + 'q) \<times> 's" where
  "and_then m f = (case m of (Inl e, s) \<Rightarrow> (Inl e, s) | (Inr x, s) \<Rightarrow> f x s)"

definition bind_err :: "error + 'a \<Rightarrow> ('a \<Rightarrow> error + 'b) \<Rightarrow> error + 'b" where
  "bind_err m f = (case m of Inl e \<Rightarrow> Inl e | Inr x \<Rightarrow> f x)"

text \<open>The rows of a value read from a view.\<close>

fun rows :: "'a data \<Rightarrow> 'a list" where
  "rows (Row x) = [x]"
| "rows (Rows xs) = xs"

section \<open>Cylinder\<close>

text \<open>
  A material, as far as this code touches it: the two constructor arguments that the
  default materials pass, and \<open>primitive_color_mix\<close>.
\<close>

record material =
  solid :: real
  color :: vec3
  primitive_color_mix :: real

text \<open>
  A \<open>Cylinder\<close> object together with its native handle \<open>_geometry\<close>: the three
  attribute buffers (\<open>N\<times>2\<times>3\<close> points, \<open>N\<close> radii, \<open>N\<times>2\<times>3\<close> colours), the number
  of \<open>update()\<close> calls the handle has received, and the material settings of the handle.
\<close>

record cylinder =
  points_buffer :: "(vec3 \<times> vec3) buffer"
  radius_buffer :: "real buffer"
  color_buffer :: "(vec3 \<times> vec3) buffer"
  update_calls :: nat
  geometry_material :: material
  geometry_outline_material :: material
  geometry_outline_width :: real

text \<open>
  Modelled from the spec: the backend constructor \<open>GeometryCylinder(scene, N)\<close> is not
  part of the Python sources. It returns a handle whose buffers have \<open>N\<close> rows; values
  that are never written read as zeros. The material fields are placeholders until the
  constructor of \<open>Cylinder\<close> sets them in its next three statements.
\<close>

definition zero3 :: vec3 where
  "zero3 = (0, 0, 0)"

definition fresh_buffer :: "nat \<Rightarrow> 'a \<Rightarrow> 'a buffer" where
  "fresh_buffer n z = \<lparr>mem = replicate n z, elem_type = Float32, mapped = False\<rparr>"

definition GeometryCylinder :: "nat \<Rightarrow> material \<Rightarrow> cylinder" where
  "GeometryCylinder n m =
     \<lparr>points_buffer = fresh_buffer n (zero3, zero3),
      radius_buffer = fresh_buffer n 0,
      color_buffer = fresh_buffer n (zero3, zero3),
      update_calls = 0,
      geometry_material = m,
      geometry_outline_material = m,
      geometry_outline_width = 0\<rparr>"

text \<open>
  The properties \<open>points\<close>, \<open>radius\<close> and \<open>color\<close> build a view of the handle's buffer
  with \<open>geom=self\<close>. What the view did to its buffer and to the geometry is stored back
  into the object afterwards.
\<close>

definition Cylinder_points :: "'z cylinder_scheme \<Rightarrow> (vec3 \<times> vec3) array" where
  "Cylinder_points self = \<lparr>buf = points_buffer self, geom = Some (update_calls self)\<rparr>"

definition Cylinder_radius :: "'z cylinder_scheme \<Rightarrow> real array" where
  "Cylinder_radius self = \<lparr>buf = radius_buffer self, geom = Some (update_calls self)\<rparr>"

definition Cylinder_color :: "'z cylinder_scheme \<Rightarrow> (vec3 \<times> vec3) array" where
  "Cylinder_color self = \<lparr>buf = color_buffer self, geom = Some (update_calls self)\<rparr>"

definition geom_calls :: "'a array \<Rightarrow> nat \<Rightarrow> nat" where
  "geom_calls a n = (case geom a of None \<Rightarrow> n | Some k \<Rightarrow> k)"

definition store_points :: "(vec3 \<times> vec3) array \<Rightarrow> 'z cylinder_scheme \<Rightarrow> 'z cylinder_scheme" where
  "store_points a self =
     self\<lparr>points_buffer := buf a, update_calls := geom_calls a (update_calls self)\<rparr>"

definition store_radius :: "real array \<Rightarrow> 'z cylinder_scheme \<Rightarrow> 'z cylinder_scheme" where
  "store_radius a self =
     self\<lparr>radius_buffer := buf a, update_calls := geom_calls a (update_calls self)\<rparr>"

definition store_color :: "(vec3 \<times> vec3) array \<Rightarrow> 'z cylinder_scheme \<Rightarrow> 'z cylinder_scheme" where
  "store_color a self =
     self\<lparr>color_buffer := buf a, update_calls := geom_calls a (update_calls self)\<rparr>"

text \<open>\<open>self.points[slice] = d\<close>, \<open>self.radius[slice] = d\<close>, \<open>self.color[slice] = d\<close>.\<close>

definition points_setitem ::
  "index \<Rightarrow> (vec3 \<times> vec3) data \<Rightarrow> 'z cylinder_scheme \<Rightarrow> (error + unit) \<times> 'z cylinder_scheme" where
  "points_setitem slice d self =
     (case array_setitem (Cylinder_points self) slice d of (r, a) \<Rightarrow> (r, store_points a self))"

definition radius_setitem ::
  "index \<Rightarrow> real data \<Rightarrow> 'z cylinder_scheme \<Rightarrow> (error + unit) \<times> 'z cylinder_scheme" where
  "radius_setitem slice d self =
     (case array_setitem (Cylinder_radius self) slice d of (r, a) \<Rightarrow> (r, store_radius a self))"

definition color_setitem ::
  "index \<Rightarrow> (vec3 \<times> vec3) data \<Rightarrow> 'z cylinder_scheme \<Rightarrow> (error + unit) \<times> 'z cylinder_scheme" where
  "color_setitem slice d self =
     (case array_setitem (Cylinder_color self) slice d of (r, a) \<Rightarrow> (r, store_color a self))"

text \<open>\<open>self.points[slice]\<close> and \<open>self.radius[slice]\<close>.\<close>

definition points_getitem ::
  "index \<Rightarrow> 'z cylinder_scheme \<Rightarrow> (error + (vec3 \<times> vec3) data) \<times> 'z cylinder_scheme" where
  "points_getitem slice self =
     (case array_getitem (Cylinder_points self) slice of (r, a) \<Rightarrow> (r, store_points a self))"

definition radius_getitem ::
  "index \<Rightarrow> 'z cylinder_scheme \<Rightarrow> (error + real data) \<times> 'z cylinder_scheme" where
  "radius_getitem slice self =
     (case array_getitem (Cylinder_radius self) slice of (r, a) \<Rightarrow> (r, store_radius a self))"

text \<open>
  \<open>Cylinder.__init__\<close>, first statement: without \<open>N\<close> the count is \<open>len(points)\<close>, and
  \<open>len(None)\<close> raises.
\<close>

definition Cylinder_N :: "'a list option \<Rightarrow> nat option \<Rightarrow> error + nat" where
  "Cylinder_N points N =
     (case N of
        Some n \<Rightarrow> Inr n
      | None \<Rightarrow> (case points of None \<Rightarrow> Inl TypeError | Some p \<Rightarrow> Inr (length p)))"

text \<open>
  \<open>Cylinder.__init__\<close> from the creation of the handle on. Appending the object to the
  scene's list is the last statement; it touches neither the buffers nor the handle and
  is left out of the state.
\<close>

definition when_given :: "'a option \<Rightarrow> ('a \<Rightarrow> 's \<Rightarrow> (error + unit) \<times> 's) \<Rightarrow> 's \<Rightarrow> (error + unit) \<times> 's" where
  "when_given arg f s = (case arg of None \<Rightarrow> (Inr (), s) | Some v \<Rightarrow> f v s)"

definition Cylinder_init ::
  "nat \<Rightarrow> (vec3 \<times> vec3) list option \<Rightarrow> real data option \<Rightarrow> (vec3 \<times> vec3) data option \<Rightarrow>
   material \<Rightarrow> material \<Rightarrow> real \<Rightarrow> (error + unit) \<times> cylinder" where
  "Cylinder_init N points radius colour mat outline_mat width =
     (let self = GeometryCylinder N mat;
          self = self\<lparr>geometry_material := mat\<rparr>;
          self = self\<lparr>geometry_outline_material := outline_mat\<rparr>;
          self = self\<lparr>geometry_outline_width := width\<rparr>
      in and_then (when_given points (\<lambda>p. points_setitem Full (Rows p)) self) (\<lambda>_ self.
         and_then (when_given radius (\<lambda>r. radius_setitem Full r) self) (\<lambda>_ self.
         when_given colour (\<lambda>c. color_setitem Full c) self)))"

text \<open>
  The numeric part of \<open>Cylinder.get_extents\<close>: \<open>A\<close> and \<open>B\<close> are the two endpoint
  columns, \<open>r\<close> the radii reshaped to a column.
\<close>

definition extents_of :: "vec3 list \<Rightarrow> vec3 list \<Rightarrow> real list \<Rightarrow> error + vec3 \<times> vec3" where
  "extents_of A B r =
     bind_err (broadcast_rows vsubs A r) (\<lambda>Ar.
     bind_err (amin_rows Ar) (\<lambda>lo_A.
     bind_err (broadcast_rows vsubs B r) (\<lambda>Br.
     bind_err (amin_rows Br) (\<lambda>lo_B.
     bind_err (broadcast_rows vadds A r) (\<lambda>Ar'.
     bind_err (amax_rows Ar') (\<lambda>hi_A.
     bind_err (broadcast_rows vadds B r) (\<lambda>Br'.
     bind_err (amax_rows Br') (\<lambda>hi_B.
       Inr (vmin lo_A lo_B, vmax hi_A hi_B)))))))))"

text \<open>
  \<open>Cylinder.get_extents\<close>. The index \<open>[:,0]\<close> takes the first endpoint of every row and
  \<open>[:,1]\<close> the second.
\<close>

definition Cylinder_get_extents ::
  "'z cylinder_scheme \<Rightarrow> (error + vec3 \<times> vec3) \<times> 'z cylinder_scheme" where
  "Cylinder_get_extents self =
     and_then (points_getitem Full self) (\<lambda>v self. let A = map fst (rows v) in
     and_then (points_getitem Full self) (\<lambda>v self. let B = map snd (rows v) in
     and_then (radius_getitem Full self) (\<lambda>v self. let r = rows v in
       (extents_of A B r, self))))"

section \<open>Box\<close>

text \<open>A \<open>Box\<close> is a \<open>Cylinder\<close> with the additional attribute \<open>_box\<close>.\<close>

record box = cylinder +
  box_param :: "real list"

text \<open>
  \<open>Box._generate_points\<close>. The rows of the transposed box matrix are the lattice
  vectors; the twelve edges are listed in the order of the source.
\<close>

definition transpose3 :: "vec3 \<times> vec3 \<times> vec3 \<Rightarrow> vec3 \<times> vec3 \<times> vec3" where
  "transpose3 M =
     (case M of ((a, b, c), (d, e, f), (g, h, i)) \<Rightarrow> ((a, d, g), (b, e, h), (c, f, i)))"

definition box_edges ::
  "real \<Rightarrow> real \<Rightarrow> real \<Rightarrow> real \<Rightarrow> real \<Rightarrow> real \<Rightarrow> (vec3 \<times> vec3) list" where
  "box_edges Lx Ly Lz xy xz yz =
     (let box_matrix = ((Lx, xy * Ly, xz * Lz),
                        (0, Ly, yz * Lz),
                        (0, 0, Lz))
      in case transpose3 box_matrix of (a_1, a_2, a_3) \<Rightarrow>
      (let A = vdiv (vneg (vadd (vadd a_1 a_2) a_3)) 2;
           B = vadd A a_1;
           C = vadd A a_2;
           D = vadd A a_3;
           E = vadd (vadd A a_1) a_3;
           F = vadd (vadd A a_2) a_3;
           G = vadd (vadd A a_1) a_2;
           H = vadd (vadd (vadd A a_1) a_2) a_3
       in [(A, B), (A, C), (A, D), (B, E), (B, G), (C, G),
           (C, F), (D, E), (D, F), (E, H), (F, H), (G, H)]))"

definition generate_points :: "real list \<Rightarrow> error + (vec3 \<times> vec3) list" where
  "generate_points b =
     (if length b = 1 then Inr (box_edges (b ! 0) (b ! 0) (b ! 0) 0 0 0)
      else if length b = 3 then Inr (box_edges (b ! 0) (b ! 1) (b ! 2) 0 0 0)
      else if length b = 6 then Inr (box_edges (b ! 0) (b ! 1) (b ! 2) (b ! 3) (b ! 4) (b ! 5))
      else Inl RuntimeError)"

text \<open>
  The default materials of \<open>Cylinder.__init__\<close>, which \<open>Box.__init__\<close> does not
  override. The class \<open>Material\<close> is defined in \<open>fresnel.material\<close>, outside the
  modelled sources; the value that its constructor gives \<open>primitive_color_mix\<close> when
  the argument is absent is the parameter \<open>mix\<close>.
\<close>

definition default_material :: "real \<Rightarrow> material" where
  "default_material mix = \<lparr>solid = 1, color = (1, 0, 1), primitive_color_mix = mix\<rparr>"

definition default_outline_material :: "real \<Rightarrow> material" where
  "default_outline_material mix = \<lparr>solid = 1, color = (0, 0, 0), primitive_color_mix = mix\<rparr>"

text \<open>
  Modelled from the spec: the material proxy returned by \<open>self.material\<close> is defined in
  \<open>fresnel.material\<close>, outside the modelled sources. Assigning an attribute of the proxy changes that property of the
  material held by this geometry's native handle.
\<close>

definition set_primitive_color_mix :: "real \<Rightarrow> 'z cylinder_scheme \<Rightarrow> 'z cylinder_scheme" where
  "set_primitive_color_mix v self =
     self\<lparr>geometry_material := (geometry_material self)\<lparr>primitive_color_mix := v\<rparr>\<rparr>"

text \<open>
  \<open>Box.__init__\<close>. The radius is a scalar and the colour a row of three numbers, as the
  class documents them; numpy broadcasts the colour to both endpoints of every edge. The
  right-hand side \<open>self._generate_points(box)\<close> is evaluated before the view
  \<open>self.points\<close> is touched. The state returned with an error is the object as the
  exception leaves it.
\<close>

definition Box_init :: "real list \<Rightarrow> real option \<Rightarrow> vec3 option \<Rightarrow> real \<Rightarrow> (error + unit) \<times> box" where
  "Box_init b radius colour mix =
     (case Cylinder_init 12 None None None
             (default_material mix) (default_outline_material mix) 0 of
        (Inl e, c) \<Rightarrow> (Inl e, cylinder.extend c \<lparr>box_param = []\<rparr>)
      | (Inr _, c) \<Rightarrow>
          (let self = cylinder.extend c \<lparr>box_param = b\<rparr>
           in case generate_points b of
                Inl e \<Rightarrow> (Inl e, self)
              | Inr pts \<Rightarrow>
                  and_then (points_setitem Full (Rows pts) self) (\<lambda>_ self.
                  and_then (case radius of
                              Some r \<Rightarrow> radius_setitem Full (Row r) self
                            | None \<Rightarrow> radius_setitem Full (Rows [1 / 2]) self) (\<lambda>_ self.
                  (case colour of
                     Some c \<Rightarrow>
                       and_then (color_setitem Full (Row (c, c)) self) (\<lambda>_ self.
                         (Inr (), set_primitive_color_mix 1 self))
                   | None \<Rightarrow> (Inr (), self))))))"

text \<open>
  The property \<open>Box.points\<close>: the getter returns the same writable view as
  \<open>Cylinder.points\<close>; the setter, which runs on \<open>box.points = value\<close>, raises.
\<close>

definition Box_points :: "box \<Rightarrow> (vec3 \<times> vec3) array" where
  "Box_points self = \<lparr>buf = points_buffer self, geom = Some (update_calls self)\<rparr>"

definition Box_set_points :: "(vec3 \<times> vec3) data \<Rightarrow> box \<Rightarrow> (error + unit) \<times> box" where
  "Box_set_points v self = (Inl AttributeError, self)"

text \<open>\<open>box.points[slice] = d\<close>: the getter, then \<open>__setitem__\<close> of the view it returned.\<close>

definition Box_points_setitem :: "index \<Rightarrow> (vec3 \<times> vec3) data \<Rightarrow> box \<Rightarrow> (error + unit) \<times> box" where
  "Box_points_setitem slice d self =
     (case array_setitem (Box_points self) slice d of (r, a) \<Rightarrow> (r, store_points a self))"

text \<open>The property \<open>Box.box\<close>.\<close>

definition Box_box :: "box \<Rightarrow> real list" where
  "Box_box self = box_param self"

definition Box_set_box :: "real list \<Rightarrow> box \<Rightarrow> (error + unit) \<times> box" where
  "Box_set_box b self =
     (let self = self\<lparr>box_param := b\<rparr>
      in case generate_points (box_param self) of
           Inl e \<Rightarrow> (Inl e, self)
         | Inr pts \<Rightarrow> Box_points_setitem Full (Rows pts) self)"

section \<open>Mesh\<close>

text \<open>
  A \<open>Mesh\<close> object: the vertex template \<open>self.vertices\<close>, a plain numpy array of shape
  \<open>3T\<times>3\<close>, and the per-instance position and orientation buffers of its handle.
\<close>

type_synonym quat = "real \<times> real \<times> real \<times> real"

record mesh =
  vertices :: "vec3 list"
  position_buffer :: "vec3 buffer"
  orientation_buffer :: "quat buffer"
  mesh_update_calls :: nat

definition Mesh_position :: "mesh \<Rightarrow> vec3 array" where
  "Mesh_position self = \<lparr>buf = position_buffer self, geom = Some (mesh_update_calls self)\<rparr>"

definition store_position :: "vec3 array \<Rightarrow> mesh \<Rightarrow> mesh" where
  "store_position a self =
     self\<lparr>position_buffer := buf a, mesh_update_calls := geom_calls a (mesh_update_calls self)\<rparr>"

definition position_getitem :: "index \<Rightarrow> mesh \<Rightarrow> (error + vec3 data) \<times> mesh" where
  "position_getitem slice self =
     (case array_getitem (Mesh_position self) slice of (r, a) \<Rightarrow> (r, store_position a self))"

text \<open>
  \<open>Mesh.get_extents\<close>. On the \<open>3T\<times>3\<close> array, \<open>self.vertices[:,0]\<close> is the column of
  all first coordinates, and likewise for \<open>[:,1]\<close> and \<open>[:,2]\<close>; each
  \<open>numpy.min(\<dots>, axis=0)\<close> of a column is a scalar, and so is the minimum of the three.
  \<open>pos + r[0]\<close> adds that scalar to every component of every position.
\<close>

definition template_range :: "vec3 list \<Rightarrow> error + real \<times> real" where
  "template_range vs =
     (let a = map vx vs; b = map vy vs; c = map vz vs
      in bind_err (amin a) (\<lambda>lo_a.
         bind_err (amin b) (\<lambda>lo_b.
         bind_err (amin c) (\<lambda>lo_c.
         bind_err (amin [lo_a, lo_b, lo_c]) (\<lambda>r0.
         bind_err (amax a) (\<lambda>hi_a.
         bind_err (amax b) (\<lambda>hi_b.
         bind_err (amax c) (\<lambda>hi_c.
         bind_err (amax [hi_a, hi_b, hi_c]) (\<lambda>r1.
           Inr (r0, r1))))))))))"

definition Mesh_get_extents :: "mesh \<Rightarrow> (error + vec3 \<times> vec3) \<times> mesh" where
  "Mesh_get_extents self =
     (case template_range (vertices self) of
        Inl e \<Rightarrow> (Inl e, self)
      | Inr (r0, r1) \<Rightarrow>
          and_then (position_getitem Full self) (\<lambda>v self. let pos = rows v in
            (bind_err (amin_rows (map (\<lambda>p. vadds p r0) pos)) (\<lambda>lo.
             bind_err (amax_rows (map (\<lambda>p. vadds p r1) pos)) (\<lambda>hi.
               Inr (lo, hi))), self)))"

section \<open>Reference values that the properties are stated against\<close>

text \<open>
  The bounding interval of a set of cylinders along one coordinate \<open>c\<close>, in the words of
  the specification: the least, over all cylinders and both endpoints, of the endpoint
  coordinate minus that cylinder's radius, and the greatest of the coordinate plus the
  radius.
\<close>

definition inflated_low :: "(vec3 \<Rightarrow> real) \<Rightarrow> (vec3 \<times> vec3) list \<Rightarrow> real list \<Rightarrow> real" where
  "inflated_low c ps rs = Min (\<Union>((p, q), r) \<in> set (zip ps rs). {c p - r, c q - r})"

definition inflated_high :: "(vec3 \<Rightarrow> real) \<Rightarrow> (vec3 \<times> vec3) list \<Rightarrow> real list \<Rightarrow> real" where
  "inflated_high c ps rs = Max (\<Union>((p, q), r) \<in> set (zip ps rs). {c p + r, c q + r})"

text \<open>
  The bounding box of a vertex template translated by instance positions, in the words of
  the specification: per axis, the least position component plus the least vertex
  component, and the greatest plus the greatest.
\<close>

definition translated_bbox :: "vec3 list \<Rightarrow> vec3 list \<Rightarrow> vec3 \<times> vec3" where
  "translated_bbox vs ps =
     ((Min (vx ` set ps) + Min (vx ` set vs),
       Min (vy ` set ps) + Min (vy ` set vs),
       Min (vz ` set ps) + Min (vz ` set vs)),
      (Max (vx ` set ps) + Max (vx ` set vs),
       Max (vy ` set ps) + Max (vy ` set vs),
       Max (vz ` set ps) + Max (vz ` set vs)))"

text \<open>
  All coordinates of a list of vertices, regardless of their axis.
\<close>

definition all_coordinates :: "vec3 list \<Rightarrow> real set" where
  "all_coordinates vs = vx ` set vs \<union> vy ` set vs \<union> vz ` set vs"

text \<open>
  The corners of the cube spanning \<open>[-1, 1]\<^sup>3\<close>, the endpoints of a list of edges, and
  the number of edges that have a given point as an endpoint.
\<close>

definition cube_corners :: "vec3 list" where
  "cube_corners = [(x, y, z). x \<leftarrow> [-1, 1], y \<leftarrow> [-1, 1], z \<leftarrow> [-1, 1]]"

definition endpoints :: "('a \<times> 'a) list \<Rightarrow> 'a list" where
  "endpoints P = map fst P @ map snd P"

definition edges_at :: "'a \<Rightarrow> ('a \<times> 'a) list \<Rightarrow> nat" where
  "edges_at c P = length (filter (\<lambda>e. fst e = c \<or> snd e = c) P)"

section \<open>Concrete objects\<close>

text \<open>
  A view of three radii owned by a geometry whose handle has not been updated yet, and a
  view of a standalone buffer that no geometry owns.
\<close>

definition three_radii :: "real array" where
  "three_radii = \<lparr>buf = \<lparr>mem = [1, 2, 3], elem_type = Float32, mapped = False\<rparr>, geom = Some 0\<rparr>"

definition unowned_pixels :: "real array" where
  "unowned_pixels = \<lparr>buf = \<lparr>mem = [1, 2, 3], elem_type = UInt8, mapped = False\<rparr>, geom = None\<rparr>"

text \<open>
  \<open>Cylinder(scene, points=[[[0,0,0],[1,0,0]], [[0,2,0],[0,2,3]]], radius=[0.5, 1], N=2)\<close>
  and \<open>Cylinder(scene, points=[])\<close>, for which \<open>N = len(points) = 0\<close>.
\<close>

definition two_cylinders :: cylinder where
  "two_cylinders =
     snd (Cylinder_init 2 (Some [((0, 0, 0), (1, 0, 0)), ((0, 2, 0), (0, 2, 3))])
            (Some (Rows [1 / 2, 1])) None (default_material 0) (default_outline_material 0) 0)"

definition no_cylinders :: cylinder where
  "no_cylinders =
     snd (Cylinder_init 0 (Some []) None None (default_material 0) (default_outline_material 0) 0)"

text \<open>
  A mesh of one triangle with the vertices \<open>[[0,0,0],[1,0,0],[0,5,0]]\<close> and one instance
  at the origin with the identity orientation.
\<close>

definition one_triangle :: mesh where
  "one_triangle =
     \<lparr>vertices = [(0, 0, 0), (1, 0, 0), (0, 5, 0)],
      position_buffer = \<lparr>mem = [(0, 0, 0)], elem_type = Float32, mapped = False\<rparr>,
      orientation_buffer = \<lparr>mem = [(1, 0, 0, 0)], elem_type = Float32, mapped = False\<rparr>,
      mesh_update_calls = 0\<rparr>"

text \<open>\<open>Box(scene, box=[1], radius=0.1, color=[1,0,0])\<close>.\<close>

definition unit_box :: box where
  "unit_box = snd (Box_init [1] (Some (1 / 10)) (Some (1, 0, 0)) 0)"

text \<open>
  The object that \<open>Box.__init__\<close> leaves behind when every statement succeeds, written
  out field by field: \<open>pts\<close> are the generated edges and \<open>r\<close> the radius in effect.
\<close>

definition box_after :: "real list \<Rightarrow> (vec3 \<times> vec3) list \<Rightarrow> real \<Rightarrow> vec3 option \<Rightarrow> real \<Rightarrow> box" where
  "box_after b pts r colour mix =
     \<lparr>points_buffer = \<lparr>mem = pts, elem_type = Float32, mapped = False\<rparr>,
      radius_buffer = \<lparr>mem = replicate 12 r, elem_type = Float32, mapped = False\<rparr>,
      color_buffer = \<lparr>mem = replicate 12 (case colour of None \<Rightarrow> (zero3, zero3) | Some c \<Rightarrow> (c, c)),
                      elem_type = Float32, mapped = False\<rparr>,
      update_calls = (case colour of None \<Rightarrow> 2 | Some c \<Rightarrow> 3),
      geometry_material = \<lparr>solid = 1, color = (1, 0, 1),
                             primitive_color_mix = (case colour of None \<Rightarrow> mix | Some c \<Rightarrow> 1)\<rparr>,
      geometry_outline_material = default_outline_material mix,
      geometry_outline_width = 0,
      box_param = b\<rparr>"

section \<open>Facts about the numpy fragment\<close>

lemma np_setitem_Full_Rows:
  "length xs = length a \<Longrightarrow> np_setitem a Full (Rows xs) = Inr xs"
  by (simp add: np_setitem_def slice_bound_def)

lemma np_setitem_Full_Row:
  "np_setitem a Full (Row x) = Inr (replicate (length a) x)"
  by (simp add: np_setitem_def slice_bound_def)

lemma np_setitem_Full_single:
  "np_setitem a Full (Rows [x]) = Inr (replicate (length a) x)"
  by (cases a) (auto simp add: np_setitem_def slice_bound_def)

lemma np_getitem_Full: "np_getitem a Full = Inr (Rows a)"
  by (simp add: np_getitem_def slice_bound_def)

text \<open>A write never changes the number of rows.\<close>

lemma length_np_setitem:
  assumes "np_setitem a slice d = Inr a'"
  shows "length a' = length a"
proof (cases slice)
  case (At i)
  with assms show ?thesis
    by (auto simp add: np_setitem_def split: sum.splits data.splits list.splits)
next
  case (Slice s e)
  define lo where "lo = slice_bound (length a) s 0"
  define hi where "hi = slice_bound (length a) e (length a)"
  have lo: "lo \<le> length a"
    by (auto simp add: lo_def slice_bound_def split: option.splits)
  have hi: "hi \<le> length a"
    by (auto simp add: hi_def slice_bound_def split: option.splits)
  have k: "length (take lo a @ xs @ drop (lo + (hi - lo)) a) = length a"
    if "length xs = hi - lo" for xs :: "'a list"
    using lo hi that by auto
  show ?thesis
  proof (cases d)
    case (Row x)
    with assms Slice have "a' = take lo a @ replicate (hi - lo) x @ drop (lo + (hi - lo)) a"
      by (simp add: np_setitem_def lo_def hi_def Let_def)
    then show ?thesis using k [of "replicate (hi - lo) x"] by simp
  next
    case (Rows xs)
    show ?thesis
    proof (cases "length xs = hi - lo")
      case True
      with assms Slice Rows have "a' = take lo a @ xs @ drop (lo + (hi - lo)) a"
        by (simp add: np_setitem_def lo_def hi_def Let_def)
      then show ?thesis using k [OF True] by simp
    next
      case False
      with assms Slice Rows obtain x where "xs = [x]"
        and "a' = take lo a @ replicate (hi - lo) x @ drop (lo + (hi - lo)) a"
        by (auto simp add: np_setitem_def lo_def hi_def Let_def split: list.splits)
      then show ?thesis using k [of "replicate (hi - lo) x"] by simp
    qed
  qed
qed

section \<open>Reductions along the leading axis\<close>

lemma vec3_components: "v = (vx v, vy v, vz v)"
  by (cases v) simp

lemma vsubs_components:
  "vx (vsubs v s) = vx v - s" "vy (vsubs v s) = vy v - s" "vz (vsubs v s) = vz v - s"
  by (cases v; simp)+

lemma vadds_components:
  "vx (vadds v s) = vx v + s" "vy (vadds v s) = vy v + s" "vz (vadds v s) = vz v + s"
  by (cases v; simp)+

lemma fold_vmin_vx: "vx (fold vmin vs v) = fold min (map vx vs) (vx v)"
  by (induction vs arbitrary: v) (auto simp add: vmin.simps split: prod.splits)

lemma fold_vmin_vy: "vy (fold vmin vs v) = fold min (map vy vs) (vy v)"
  by (induction vs arbitrary: v) (auto simp add: vmin.simps split: prod.splits)

lemma fold_vmin_vz: "vz (fold vmin vs v) = fold min (map vz vs) (vz v)"
  by (induction vs arbitrary: v) (auto simp add: vmin.simps split: prod.splits)

lemma fold_vmax_vx: "vx (fold vmax vs v) = fold max (map vx vs) (vx v)"
  by (induction vs arbitrary: v) (auto simp add: vmax.simps split: prod.splits)

lemma fold_vmax_vy: "vy (fold vmax vs v) = fold max (map vy vs) (vy v)"
  by (induction vs arbitrary: v) (auto simp add: vmax.simps split: prod.splits)

lemma fold_vmax_vz: "vz (fold vmax vs v) = fold max (map vz vs) (vz v)"
  by (induction vs arbitrary: v) (auto simp add: vmax.simps split: prod.splits)

lemma fold_min_Min: "fold min (map c vs) (c v) = Min (c ` set (v # vs))"
  using Min.set_eq_fold [of "c v" "map c vs"] by simp

lemma fold_max_Max: "fold max (map c vs) (c v) = Max (c ` set (v # vs))"
  using Max.set_eq_fold [of "c v" "map c vs"] by simp

lemma amin_rows_Min:
  assumes "vs \<noteq> []"
  shows "amin_rows vs = Inr (Min (vx ` set vs), Min (vy ` set vs), Min (vz ` set vs))"
proof -
  from assms obtain v ws where vs: "vs = v # ws" by (cases vs) auto
  have "fold vmin ws v = (Min (vx ` set vs), Min (vy ` set vs), Min (vz ` set vs))"
    unfolding vs
    by (subst vec3_components [of "fold vmin ws v"])
       (simp only: fold_vmin_vx fold_vmin_vy fold_vmin_vz fold_min_Min)
  then show ?thesis by (simp add: vs)
qed

lemma amax_rows_Max:
  assumes "vs \<noteq> []"
  shows "amax_rows vs = Inr (Max (vx ` set vs), Max (vy ` set vs), Max (vz ` set vs))"
proof -
  from assms obtain v ws where vs: "vs = v # ws" by (cases vs) auto
  have "fold vmax ws v = (Max (vx ` set vs), Max (vy ` set vs), Max (vz ` set vs))"
    unfolding vs
    by (subst vec3_components [of "fold vmax ws v"])
       (simp only: fold_vmax_vx fold_vmax_vy fold_vmax_vz fold_max_Max)
  then show ?thesis by (simp add: vs)
qed

lemma column_image:
  "c ` set (map2 f (map g ps) rs) = (\<lambda>(e, r). c (f (g e) r)) ` set (zip ps rs)"
  by (force simp add: zip_map1)

lemma inflated_low_eq:
  assumes c: "\<And>v s. c (vsubs v s) = c v - s"
    and len: "length ps = length rs" and ne: "ps \<noteq> []"
  shows "min (Min (c ` set (map2 vsubs (map fst ps) rs)))
             (Min (c ` set (map2 vsubs (map snd ps) rs))) = inflated_low c ps rs"
proof -
  let ?Z = "set (zip ps rs)"
  have z: "?Z \<noteq> {}" using len ne by (cases ps; cases rs) auto
  have fin: "finite ?Z" by simp
  let ?L = "(\<lambda>(e, r). c (fst e) - r) ` ?Z" and ?R = "(\<lambda>(e, r). c (snd e) - r) ` ?Z"
  have L: "c ` set (map2 vsubs (map fst ps) rs) = ?L"
    by (simp only: column_image c)
  have R: "c ` set (map2 vsubs (map snd ps) rs) = ?R"
    by (simp only: column_image c)
  have m: "min (Min ?L) (Min ?R) = Min (?L \<union> ?R)"
    using z fin by (simp add: Min_Un)
  have u: "?L \<union> ?R = (\<Union>((p, q), r) \<in> ?Z. {c p - r, c q - r})"
    by (auto simp add: image_iff split: prod.splits) force+
  show ?thesis
    by (simp only: L R m u inflated_low_def)
qed

lemma inflated_high_eq:
  assumes c: "\<And>v s. c (vadds v s) = c v + s"
    and len: "length ps = length rs" and ne: "ps \<noteq> []"
  shows "max (Max (c ` set (map2 vadds (map fst ps) rs)))
             (Max (c ` set (map2 vadds (map snd ps) rs))) = inflated_high c ps rs"
proof -
  let ?Z = "set (zip ps rs)"
  have z: "?Z \<noteq> {}" using len ne by (cases ps; cases rs) auto
  have fin: "finite ?Z" by simp
  let ?L = "(\<lambda>(e, r). c (fst e) + r) ` ?Z" and ?R = "(\<lambda>(e, r). c (snd e) + r) ` ?Z"
  have L: "c ` set (map2 vadds (map fst ps) rs) = ?L"
    by (simp only: column_image c)
  have R: "c ` set (map2 vadds (map snd ps) rs) = ?R"
    by (simp only: column_image c)
  have m: "max (Max ?L) (Max ?R) = Max (?L \<union> ?R)"
    using z fin by (simp add: Max_Un)
  have u: "?L \<union> ?R = (\<Union>((p, q), r) \<in> ?Z. {c p + r, c q + r})"
    by (auto simp add: image_iff split: prod.splits) force+
  show ?thesis
    by (simp only: L R m u inflated_high_def)
qed

text \<open>
  With one radius per cylinder and at least one cylinder, the numeric part of
  \<open>Cylinder.get_extents\<close> computes the inflated bounds of every coordinate.
\<close>

lemma extents_of_rows:
  assumes len: "length ps = length rs" and ne: "ps \<noteq> []"
  shows "extents_of (map fst ps) (map snd ps) rs =
     Inr ((inflated_low vx ps rs, inflated_low vy ps rs, inflated_low vz ps rs),
          (inflated_high vx ps rs, inflated_high vy ps rs, inflated_high vz ps rs))"
proof -
  have m: "map2 f (map g ps) rs \<noteq> []" for f :: "vec3 \<Rightarrow> real \<Rightarrow> vec3" and g :: "vec3 \<times> vec3 \<Rightarrow> vec3"
    using len ne by (cases ps; cases rs) auto
  have b: "broadcast_rows f (map g ps) rs = Inr (map2 f (map g ps) rs)"
    for f and g :: "vec3 \<times> vec3 \<Rightarrow> vec3"
    using len by (simp add: broadcast_rows_def)
  have "extents_of (map fst ps) (map snd ps) rs =
     Inr ((min (Min (vx ` set (map2 vsubs (map fst ps) rs))) (Min (vx ` set (map2 vsubs (map snd ps) rs))),
           min (Min (vy ` set (map2 vsubs (map fst ps) rs))) (Min (vy ` set (map2 vsubs (map snd ps) rs))),
           min (Min (vz ` set (map2 vsubs (map fst ps) rs))) (Min (vz ` set (map2 vsubs (map snd ps) rs)))),
          (max (Max (vx ` set (map2 vadds (map fst ps) rs))) (Max (vx ` set (map2 vadds (map snd ps) rs))),
           max (Max (vy ` set (map2 vadds (map fst ps) rs))) (Max (vy ` set (map2 vadds (map snd ps) rs))),
           max (Max (vz ` set (map2 vadds (map fst ps) rs))) (Max (vz ` set (map2 vadds (map snd ps) rs)))))"
    by (simp only: extents_of_def bind_err_def b amin_rows_Min [OF m] amax_rows_Max [OF m]
        sum.case vmin.simps vmax.simps)
  also have "\<dots> = Inr ((inflated_low vx ps rs, inflated_low vy ps rs, inflated_low vz ps rs),
          (inflated_high vx ps rs, inflated_high vy ps rs, inflated_high vz ps rs))"
    by (simp only: inflated_low_eq [OF vsubs_components(1) len ne]
        inflated_low_eq [OF vsubs_components(2) len ne]
        inflated_low_eq [OF vsubs_components(3) len ne]
        inflated_high_eq [OF vadds_components(1) len ne]
        inflated_high_eq [OF vadds_components(2) len ne]
        inflated_high_eq [OF vadds_components(3) len ne])
  finally show ?thesis .
qed

lemma extents_of_empty: "extents_of [] B r = Inl ValueError"
  by (simp add: extents_of_def bind_err_def broadcast_rows_def split: list.splits)

lemma amin_Min: "a \<noteq> [] \<Longrightarrow> amin a = Inr (Min (set a))"
  using Min.set_eq_fold [symmetric] by (cases a) auto

lemma amax_Max: "a \<noteq> [] \<Longrightarrow> amax a = Inr (Max (set a))"
  using Max.set_eq_fold [symmetric] by (cases a) auto

lemma shifted_Min:
  assumes "ps \<noteq> []" and c: "\<And>v s. c (vadds v s) = c v + s"
  shows "Min (c ` set (map (\<lambda>p. vadds p s) ps)) = Min (c ` set ps) + s"
proof -
  have "c ` set (map (\<lambda>p. vadds p s) ps) = (\<lambda>p. c p + s) ` set ps"
    by (simp add: image_image c)
  then show ?thesis
    using Min_add_commute [of "set ps" c s] assms(1) by simp
qed

lemma shifted_Max:
  assumes "ps \<noteq> []" and c: "\<And>v s. c (vadds v s) = c v + s"
  shows "Max (c ` set (map (\<lambda>p. vadds p s) ps)) = Max (c ` set ps) + s"
proof -
  have "c ` set (map (\<lambda>p. vadds p s) ps) = (\<lambda>p. c p + s) ` set ps"
    by (simp add: image_image c)
  then show ?thesis
    using Max_add_commute [of "set ps" c s] assms(1) by simp
qed

section \<open>Facts about the views of a cylinder\<close>

text \<open>A successful write through the view of a cylinder's points updates its handle once.\<close>

lemma points_setitem_updates_once:
  "points_setitem slice d self = (Inr u, self') \<Longrightarrow> update_calls self' = Suc (update_calls self)"
  by (auto simp add: points_setitem_def array_setitem_def Cylinder_points_def store_points_def
      geom_calls_def update_def Let_def split: sum.splits)

lemma points_setitem_Full_Rows:
  "length pts = length (mem (points_buffer self)) \<Longrightarrow>
   points_setitem Full (Rows pts) self =
     (Inr (), self\<lparr>points_buffer := (points_buffer self)\<lparr>mem := pts, mapped := False\<rparr>,
                    update_calls := Suc (update_calls self)\<rparr>)"
  by (simp add: points_setitem_def array_setitem_def Cylinder_points_def store_points_def
      geom_calls_def buffer_map_def buffer_unmap_def update_def np_setitem_Full_Rows)

lemma radius_setitem_Full_Rows:
  "length rs = length (mem (radius_buffer self)) \<Longrightarrow>
   radius_setitem Full (Rows rs) self =
     (Inr (), self\<lparr>radius_buffer := (radius_buffer self)\<lparr>mem := rs, mapped := False\<rparr>,
                    update_calls := Suc (update_calls self)\<rparr>)"
  by (simp add: radius_setitem_def array_setitem_def Cylinder_radius_def store_radius_def
      geom_calls_def buffer_map_def buffer_unmap_def update_def np_setitem_Full_Rows)

lemma radius_setitem_Full_Row:
  "radius_setitem Full (Row r) self =
     (Inr (), self\<lparr>radius_buffer := (radius_buffer self)
                      \<lparr>mem := replicate (length (mem (radius_buffer self))) r, mapped := False\<rparr>,
                    update_calls := Suc (update_calls self)\<rparr>)"
  by (simp add: radius_setitem_def array_setitem_def Cylinder_radius_def store_radius_def
      geom_calls_def buffer_map_def buffer_unmap_def update_def np_setitem_Full_Row)

lemma radius_setitem_Full_single:
  "radius_setitem Full (Rows [r]) self =
     (Inr (), self\<lparr>radius_buffer := (radius_buffer self)
                      \<lparr>mem := replicate (length (mem (radius_buffer self))) r, mapped := False\<rparr>,
                    update_calls := Suc (update_calls self)\<rparr>)"
  by (simp add: radius_setitem_def array_setitem_def Cylinder_radius_def store_radius_def
      geom_calls_def buffer_map_def buffer_unmap_def update_def np_setitem_Full_single)

lemma color_setitem_Full_Row:
  "color_setitem Full (Row c) self =
     (Inr (), self\<lparr>color_buffer := (color_buffer self)
                      \<lparr>mem := replicate (length (mem (color_buffer self))) c, mapped := False\<rparr>,
                    update_calls := Suc (update_calls self)\<rparr>)"
  by (simp add: color_setitem_def array_setitem_def Cylinder_color_def store_color_def
      geom_calls_def buffer_map_def buffer_unmap_def update_def np_setitem_Full_Row)

lemma points_getitem_Full:
  "points_getitem Full self =
     (Inr (Rows (mem (points_buffer self))),
      self\<lparr>points_buffer := (points_buffer self)\<lparr>mapped := False\<rparr>\<rparr>)"
  by (simp add: points_getitem_def array_getitem_def Cylinder_points_def store_points_def
      geom_calls_def buffer_map_def buffer_unmap_def np_getitem_Full)

lemma radius_getitem_Full:
  "radius_getitem Full self =
     (Inr (Rows (mem (radius_buffer self))),
      self\<lparr>radius_buffer := (radius_buffer self)\<lparr>mapped := False\<rparr>\<rparr>)"
  by (simp add: radius_getitem_def array_getitem_def Cylinder_radius_def store_radius_def
      geom_calls_def buffer_map_def buffer_unmap_def np_getitem_Full)

lemma Cylinder_init_bare:
  "Cylinder_init N None None None m om w =
     (Inr (), (GeometryCylinder N m)\<lparr>geometry_material := m, geometry_outline_material := om,
                                     geometry_outline_width := w\<rparr>)"
  by (simp add: Cylinder_init_def when_given_def and_then_def Let_def)

lemma Cylinder_init_points_radius:
  assumes "length ps = N" and "length rs = N"
  shows "Cylinder_init N (Some ps) (Some (Rows rs)) None m om w =
     (Inr (), \<lparr>points_buffer = \<lparr>mem = ps, elem_type = Float32, mapped = False\<rparr>,
               radius_buffer = \<lparr>mem = rs, elem_type = Float32, mapped = False\<rparr>,
               color_buffer = fresh_buffer N (zero3, zero3),
               update_calls = 2,
               geometry_material = m,
               geometry_outline_material = om,
               geometry_outline_width = w\<rparr>)"
  using assms
  by (simp add: Cylinder_init_def when_given_def and_then_def GeometryCylinder_def
      fresh_buffer_def points_setitem_Full_Rows radius_setitem_Full_Rows)

text \<open>The value of \<open>Cylinder.get_extents\<close> is the numeric part applied to the buffers.\<close>

lemma Cylinder_get_extents_value:
  "fst (Cylinder_get_extents self) =
     extents_of (map fst (mem (points_buffer self))) (map snd (mem (points_buffer self)))
       (mem (radius_buffer self))"
  by (simp add: Cylinder_get_extents_def and_then_def points_getitem_Full radius_getitem_Full)

lemma two_cylinders_mem:
  "mem (points_buffer two_cylinders) = [((0, 0, 0), (1, 0, 0)), ((0, 2, 0), (0, 2, 3))]"
  "mem (radius_buffer two_cylinders) = [1 / 2, 1]"
  by (simp_all add: two_cylinders_def Cylinder_init_points_radius)

lemma two_cylinders_extents:
  "fst (Cylinder_get_extents two_cylinders) = Inr ((- 1, - 1 / 2, - 1), (3 / 2, 3, 4))"
  by (simp add: Cylinder_get_extents_value two_cylinders_mem extents_of_def
        bind_err_def broadcast_rows_def)

lemma no_cylinders_mem: "mem (points_buffer no_cylinders) = []"
proof -
  have "Cylinder_init 0 (Some []) None None m om w =
     (Inr (), (GeometryCylinder 0 m)\<lparr>geometry_material := m, geometry_outline_material := om,
        geometry_outline_width := w,
        points_buffer := (points_buffer (GeometryCylinder 0 m))\<lparr>mem := [], mapped := False\<rparr>,
        update_calls := Suc 0\<rparr>)" for m om w
    by (simp add: Cylinder_init_def when_given_def and_then_def points_setitem_Full_Rows
        GeometryCylinder_def fresh_buffer_def)
  then show ?thesis by (simp add: no_cylinders_def)
qed

section \<open>Facts about the box\<close>

lemma length_box_edges: "length (box_edges Lx Ly Lz xy xz yz) = 12"
  by (simp add: box_edges_def transpose3_def Let_def)

lemma generate_points_accepts:
  "length b = 1 \<or> length b = 3 \<or> length b = 6 \<Longrightarrow>
     \<exists>pts. generate_points b = Inr pts \<and> length pts = 12"
  by (auto simp add: generate_points_def length_box_edges)

lemma generate_points_rejects:
  "length b \<noteq> 1 \<Longrightarrow> length b \<noteq> 3 \<Longrightarrow> length b \<noteq> 6 \<Longrightarrow>
     generate_points b = Inl RuntimeError"
  by (simp add: generate_points_def)

lemma generate_points_rows: "generate_points b = Inr pts \<Longrightarrow> length pts = 12"
  by (auto simp add: generate_points_def length_box_edges split: if_splits)

lemma generate_points_222:
  "generate_points [2, 2, 2] =
     Inr [((-1, -1, -1), (1, -1, -1)), ((-1, -1, -1), (-1, 1, -1)), ((-1, -1, -1), (-1, -1, 1)),
          ((1, -1, -1), (1, -1, 1)), ((1, -1, -1), (1, 1, -1)), ((-1, 1, -1), (1, 1, -1)),
          ((-1, 1, -1), (-1, 1, 1)), ((-1, -1, 1), (1, -1, 1)), ((-1, -1, 1), (-1, 1, 1)),
          ((1, -1, 1), (1, 1, 1)), ((-1, 1, 1), (1, 1, 1)), ((1, 1, -1), (1, 1, 1))]"
  by (simp add: generate_points_def box_edges_def transpose3_def Let_def)

text \<open>The constructor, when the box parameter is accepted and when it is rejected.\<close>

lemma Box_init_ok:
  assumes "generate_points b = Inr pts" "length pts = 12"
  shows "Box_init b radius colour mix =
           (Inr (), box_after b pts (case radius of None \<Rightarrow> 1 / 2 | Some r \<Rightarrow> r) colour mix)"
  using assms
  by (simp add: Box_init_def Cylinder_init_bare GeometryCylinder_def fresh_buffer_def
      cylinder.extend_def and_then_def points_setitem_Full_Rows radius_setitem_Full_Row
      radius_setitem_Full_single color_setitem_Full_Row set_primitive_color_mix_def
      box_after_def default_material_def
      split: option.splits)

lemma Box_init_bad:
  assumes "generate_points b = Inl e"
  shows "Box_init b radius colour mix =
           (Inl e, cylinder.extend ((GeometryCylinder 12 (default_material mix))
               \<lparr>geometry_outline_material := default_outline_material mix\<rparr>) \<lparr>box_param = b\<rparr>)"
  using assms
  by (simp add: Box_init_def Cylinder_init_bare GeometryCylinder_def)

lemma Box_points_setitem_Full_Rows:
  "length pts = length (mem (points_buffer self)) \<Longrightarrow>
   Box_points_setitem Full (Rows pts) self =
     (Inr (), self\<lparr>points_buffer := (points_buffer self)\<lparr>mem := pts, mapped := False\<rparr>,
                    update_calls := Suc (update_calls self)\<rparr>)"
  by (simp add: Box_points_setitem_def array_setitem_def Box_points_def store_points_def
      geom_calls_def buffer_map_def buffer_unmap_def update_def np_setitem_Full_Rows)

text \<open>
  The points buffer of a box has twelve rows from the constructor on, whatever is written
  through its view and whatever is assigned to \<open>box\<close>.
\<close>

lemma Box_init_rows:
  "length (mem (points_buffer (snd (Box_init b radius colour mix)))) = 12"
proof (cases "generate_points b")
  case (Inl e)
  then show ?thesis
    by (simp add: Box_init_bad GeometryCylinder_def cylinder.extend_def fresh_buffer_def)
next
  case (Inr pts)
  then show ?thesis
    by (simp add: Box_init_ok [OF Inr generate_points_rows [OF Inr]] box_after_def
        generate_points_rows [OF Inr])
qed

lemma Box_points_setitem_rows:
  "length (mem (points_buffer (snd (Box_points_setitem slice d self)))) =
     length (mem (points_buffer self))"
  by (auto simp add: Box_points_setitem_def array_setitem_def Box_points_def store_points_def
      buffer_map_def buffer_unmap_def Let_def length_np_setitem split: sum.splits)

lemma Box_set_box_rows:
  "length (mem (points_buffer (snd (Box_set_box b self)))) = length (mem (points_buffer self))"
  by (simp add: Box_set_box_def Let_def Box_points_setitem_rows split: sum.splits)

text \<open>Assigning to the attribute \<open>points\<close> raises and leaves the box as it was.\<close>

lemma Box_set_points_raises:
  "Box_set_points v self = (Inl AttributeError, self)"
  by (simp add: Box_set_points_def)

lemma unit_box_eq:
  "unit_box = box_after [1] (box_edges 1 1 1 0 0 0) (1 / 10) (Some (1, 0, 0)) 0"
proof -
  have g: "generate_points [1] = Inr (box_edges 1 1 1 0 0 0)"
    by (simp add: generate_points_def)
  show ?thesis
    by (simp add: unit_box_def Box_init_ok [OF g length_box_edges])
qed

lemma unit_box_points: "mem (points_buffer unit_box) = box_edges 1 1 1 0 0 0"
  by (simp add: unit_box_eq box_after_def)

lemma unit_box_rows: "length (mem (points_buffer unit_box)) = 12"
  by (simp add: unit_box_points length_box_edges)

lemma unit_box_first_edge:
  "box_edges 1 1 1 0 0 0 ! 0 = ((- 1 / 2, - 1 / 2, - 1 / 2), (1 / 2, - 1 / 2, - 1 / 2))"
  by (simp add: box_edges_def transpose3_def Let_def)

section \<open>Facts about the mesh\<close>

lemma position_getitem_Full:
  "position_getitem Full self =
     (Inr (Rows (mem (position_buffer self))),
      self\<lparr>position_buffer := (position_buffer self)\<lparr>mapped := False\<rparr>\<rparr>)"
  by (simp add: position_getitem_def array_getitem_def Mesh_position_def store_position_def
      geom_calls_def buffer_map_def buffer_unmap_def np_getitem_Full)

text \<open>
  The two scalars that \<open>Mesh.get_extents\<close> takes from the template are the least and
  the greatest of all vertex coordinates.
\<close>

lemma template_range_value:
  assumes "vs \<noteq> []"
  shows "template_range vs = Inr (Min (all_coordinates vs), Max (all_coordinates vs))"
proof -
  have ne: "vx ` set vs \<noteq> {}" "vy ` set vs \<noteq> {}" "vz ` set vs \<noteq> {}"
    using assms by auto
  have a: "Min (all_coordinates vs) = min (min (Min (vx ` set vs)) (Min (vy ` set vs))) (Min (vz ` set vs))"
    unfolding all_coordinates_def using ne by (simp add: Min_Un)
  have b: "Max (all_coordinates vs) = max (max (Max (vx ` set vs)) (Max (vy ` set vs))) (Max (vz ` set vs))"
    unfolding all_coordinates_def using ne by (simp add: Max_Un)
  show ?thesis
    using assms
    by (simp add: template_range_def bind_err_def amin_Min amax_Max a b Let_def min.assoc max.assoc
        min.commute max.commute min.left_commute max.left_commute)
qed

text \<open>
  What \<open>Mesh.get_extents\<close> returns for a mesh with at least one vertex and one
  instance: the per-axis range of the positions, widened on every axis by the same two
  scalars. The orientation buffer is not read.
\<close>

lemma Mesh_get_extents_value:
  assumes v: "vertices self \<noteq> []" and p: "mem (position_buffer self) \<noteq> []"
  shows "fst (Mesh_get_extents self) =
     Inr (vadds (Min (vx ` set (mem (position_buffer self))),
                 Min (vy ` set (mem (position_buffer self))),
                 Min (vz ` set (mem (position_buffer self))))
            (Min (all_coordinates (vertices self))),
          vadds (Max (vx ` set (mem (position_buffer self))),
                 Max (vy ` set (mem (position_buffer self))),
                 Max (vz ` set (mem (position_buffer self))))
            (Max (all_coordinates (vertices self))))"
proof -
  have m: "map (\<lambda>p. vadds p s) (mem (position_buffer self)) \<noteq> []" for s
    using p by simp
  show ?thesis
    by (simp add: Mesh_get_extents_def template_range_value [OF v] and_then_def
        position_getitem_Full bind_err_def amin_rows_Min [OF m] amax_rows_Max [OF m]
        shifted_Min [OF p] shifted_Max [OF p] vadds_components Let_def del: set_map)
qed

section \<open>Writes through a view and the update signal\<close>

lemma three_radii_At1:
  "array_setitem three_radii (At 1) (Row 7) =
     (Inr (), \<lparr>buf = \<lparr>mem = [1, 7, 3], elem_type = Float32, mapped = False\<rparr>, geom = Some 1\<rparr>)"
  by (simp add: three_radii_def array_setitem_def np_setitem_def resolve_index_def
      buffer_map_def buffer_unmap_def update_def)

lemma unowned_pixels_Full:
  "array_setitem unowned_pixels Full (Row 0) =
     (Inr (), \<lparr>buf = \<lparr>mem = [0, 0, 0], elem_type = UInt8, mapped = False\<rparr>, geom = None\<rparr>)"
  by (simp add: unowned_pixels_def array_setitem_def np_setitem_Full_Row
      buffer_map_def buffer_unmap_def update_def numeral_3_eq_3)

text \<open>
  Claim C1. Every write through a view that completes successfully issues exactly one
  \<open>update()\<close> on the native handle of the view's geometry, whatever index or slice is
  written and however many rows it covers: the handle's call count goes up by one. A view
  without a geometry has none afterwards either, so no signal is issued.
\<close>

theorem setitem_signals_update_once:
  "array_setitem self slice d = (Inr u, self') \<longrightarrow>
     (\<forall>n. geom self = Some n \<longrightarrow> geom self' = Some (n + 1)) \<and>
     (geom self = None \<longrightarrow> geom self' = None)"
proof (intro impI)
  assume ok: "array_setitem self slice d = (Inr u, self')"
  then obtain a where copied: "np_setitem (mem (buffer_map (buf self))) slice d = Inr a"
    by (auto simp add: array_setitem_def Let_def split: sum.splits)
  with ok have "geom self' = map_option update (geom self)"
    by (auto simp add: array_setitem_def Let_def)
  then show "(\<forall>n. geom self = Some n \<longrightarrow> geom self' = Some (n + 1)) \<and>
     (geom self = None \<longrightarrow> geom self' = None)"
    by (simp add: update_def)
qed

text \<open>
  A write of the single element \<open>[1]\<close> on an owned view, and a write of the whole of an
  unowned one.
\<close>

theorem setitem_signals_update_once_witness:
  "array_setitem three_radii (At 1) (Row 7) =
     (Inr (), \<lparr>buf = \<lparr>mem = [1, 7, 3], elem_type = Float32, mapped = False\<rparr>, geom = Some 1\<rparr>) \<and>
   geom three_radii = Some 0 \<and>
   geom (snd (array_setitem three_radii (At 1) (Row 7))) = Some (0 + 1) \<and>
   fst (array_setitem unowned_pixels Full (Row 0)) = Inr () \<and>
   geom unowned_pixels = None \<and>
   geom (snd (array_setitem unowned_pixels Full (Row 0))) = None"
proof -
  have g: "geom three_radii = Some 0" by (simp add: three_radii_def)
  have h: "geom unowned_pixels = None" by (simp add: unowned_pixels_def)
  from setitem_signals_update_once [of three_radii "At 1" "Row 7" "()"
      "snd (array_setitem three_radii (At 1) (Row 7))"] three_radii_At1 g
  have a: "geom (snd (array_setitem three_radii (At 1) (Row 7))) = Some (0 + 1)"
    by simp
  from setitem_signals_update_once [of unowned_pixels Full "Row 0" "()"
      "snd (array_setitem unowned_pixels Full (Row 0))"] unowned_pixels_Full h
  have b: "geom (snd (array_setitem unowned_pixels Full (Row 0))) = None"
    by simp
  show ?thesis using a b g h three_radii_At1 unowned_pixels_Full by simp
qed

section \<open>Mapping and unmapping\<close>

text \<open>
  Claim C3, as stated, fails: the write \<open>view[5] = 7\<close> on a view of three rows raises
  numpy's \<open>IndexError\<close> between \<open>map()\<close> and \<open>unmap()\<close>, and the call leaves the method
  with the buffer still mapped.
\<close>

theorem failed_write_leaves_buffer_mapped:
  "fst (array_setitem three_radii (At 5) (Row 7)) = Inl IndexError \<and>
   mapped (buf (snd (array_setitem three_radii (At 5) (Row 7))))"
  by (simp add: three_radii_def array_setitem_def np_setitem_def resolve_index_def
      buffer_map_def)

text \<open>
  Claim C3, amended. After a read or a write through a view the buffer is still mapped
  exactly when the operation raised: every read or write that returns normally has
  unmapped the buffer, and one whose element copy raises has not. The shape and dtype
  queries have no statement that can raise between \<open>map()\<close> and \<open>unmap()\<close> and always
  leave the buffer unmapped.
\<close>

theorem view_mapped_iff_raised:
  "mapped (buf (snd (array_setitem self slice d))) = isl (fst (array_setitem self slice d)) \<and>
   mapped (buf (snd (array_getitem self slice))) = isl (fst (array_getitem self slice)) \<and>
   \<not> mapped (buf (snd (array_shape self))) \<and>
   \<not> mapped (buf (snd (array_dtype self)))"
  by (simp add: array_setitem_def array_getitem_def array_shape_def array_dtype_def
      buffer_map_def buffer_unmap_def Let_def split: sum.splits)

section \<open>The box\<close>

text \<open>
  Claim C2. On the box \<open>Box(scene, box=[1], radius=0.1, color=[1,0,0])\<close>, assigning to
  the attribute \<open>points\<close> raises \<open>AttributeError\<close>, as the claim says. But the writes
  \<open>box.points[:] = 0\<close> and \<open>box.points[0] = 0\<close> through the view that the getter
  returns both succeed and change the points buffer, where the claim has them fail.
\<close>

theorem box_points_view_is_writable:
  "fst (Box_set_points (Row (zero3, zero3)) unit_box) = Inl AttributeError \<and>
   fst (Box_points_setitem Full (Row (zero3, zero3)) unit_box) = Inr () \<and>
   mem (points_buffer (snd (Box_points_setitem Full (Row (zero3, zero3)) unit_box))) =
     replicate 12 (zero3, zero3) \<and>
   mem (points_buffer unit_box) \<noteq> replicate 12 (zero3, zero3) \<and>
   fst (Box_points_setitem (At 0) (Row (zero3, zero3)) unit_box) = Inr () \<and>
   mem (points_buffer (snd (Box_points_setitem (At 0) (Row (zero3, zero3)) unit_box))) \<noteq>
     mem (points_buffer unit_box)"
proof -
  note l = unit_box_rows and p = unit_box_points and e = unit_box_first_edge
  have ne: "mem (points_buffer unit_box) \<noteq> []"
    using l by auto
  have 1: "fst (Box_set_points (Row (zero3, zero3)) unit_box) = Inl AttributeError"
    by (simp add: Box_set_points_def)
  have w: "Box_points_setitem Full (Row (zero3, zero3)) unit_box =
     (Inr (), unit_box\<lparr>points_buffer := (points_buffer unit_box)
                      \<lparr>mem := replicate 12 (zero3, zero3), mapped := False\<rparr>,
                    update_calls := Suc (update_calls unit_box)\<rparr>)"
    by (simp add: Box_points_setitem_def array_setitem_def Box_points_def store_points_def
      geom_calls_def buffer_map_def buffer_unmap_def update_def np_setitem_Full_Row l)
  have 4: "mem (points_buffer unit_box) \<noteq> replicate 12 (zero3, zero3)"
  proof
    assume "mem (points_buffer unit_box) = replicate 12 (zero3, zero3)"
    then have "box_edges 1 1 1 0 0 0 ! 0 = replicate 12 (zero3, zero3) ! 0"
      by (simp only: p)
    then show False by (simp add: e zero3_def)
  qed
  have w0: "Box_points_setitem (At 0) (Row (zero3, zero3)) unit_box =
     (Inr (), unit_box\<lparr>points_buffer := (points_buffer unit_box)
                      \<lparr>mem := (mem (points_buffer unit_box))[0 := (zero3, zero3)], mapped := False\<rparr>,
                    update_calls := Suc (update_calls unit_box)\<rparr>)"
    by (simp add: Box_points_setitem_def array_setitem_def Box_points_def store_points_def
      geom_calls_def buffer_map_def buffer_unmap_def update_def np_setitem_def resolve_index_def ne)
  have 6: "mem (points_buffer (snd (Box_points_setitem (At 0) (Row (zero3, zero3)) unit_box))) \<noteq>
     mem (points_buffer unit_box)"
  proof
    assume "mem (points_buffer (snd (Box_points_setitem (At 0) (Row (zero3, zero3)) unit_box))) =
     mem (points_buffer unit_box)"
    then have "(mem (points_buffer unit_box))[0 := (zero3, zero3)] ! 0 = mem (points_buffer unit_box) ! 0"
      by (simp add: w0)
    then show False using l by (simp add: p e zero3_def)
  qed
  show ?thesis using 1 4 6 by (simp add: w w0)
qed

text \<open>
  Claim C4. \<open>Box(scene, box=[2,2,2])\<close>, with any radius and colour, is constructed
  without error and has twelve edges; the set of their endpoints is the set of the eight
  corners of the cube spanning \<open>[-1, 1]\<^sup>3\<close>, and every corner is an endpoint of exactly
  three edges.
\<close>

theorem box_222_is_cube:
  "fst (Box_init [2, 2, 2] radius colour mix) = Inr () \<and>
   length (mem (points_buffer (snd (Box_init [2, 2, 2] radius colour mix)))) = 12 \<and>
   set (endpoints (mem (points_buffer (snd (Box_init [2, 2, 2] radius colour mix))))) = set cube_corners \<and>
   length cube_corners = 8 \<and> distinct cube_corners \<and>
   map (\<lambda>c. edges_at c (mem (points_buffer (snd (Box_init [2, 2, 2] radius colour mix))))) cube_corners
     = [3, 3, 3, 3, 3, 3, 3, 3]"
proof -
  note init = Box_init_ok [OF generate_points_222, of radius colour mix, simplified]
  have P: "mem (points_buffer (snd (Box_init [2, 2, 2] radius colour mix))) =
     [((-1, -1, -1), (1, -1, -1)), ((-1, -1, -1), (-1, 1, -1)), ((-1, -1, -1), (-1, -1, 1)),
          ((1, -1, -1), (1, -1, 1)), ((1, -1, -1), (1, 1, -1)), ((-1, 1, -1), (1, 1, -1)),
          ((-1, 1, -1), (-1, 1, 1)), ((-1, -1, 1), (1, -1, 1)), ((-1, -1, 1), (-1, 1, 1)),
          ((1, -1, 1), (1, 1, 1)), ((-1, 1, 1), (1, 1, 1)), ((1, 1, -1), (1, 1, 1))]"
    by (simp add: init box_after_def)
  have ok: "fst (Box_init [2, 2, 2] radius colour mix) = Inr ()"
    by (simp add: init)
  have corners: "cube_corners = [(-1, -1, -1), (-1, -1, 1), (-1, 1, -1), (-1, 1, 1),
      (1, -1, -1), (1, -1, 1), (1, 1, -1), (1, 1, 1)]"
    by (simp add: cube_corners_def)
  have s: "set (endpoints (mem (points_buffer (snd (Box_init [2, 2, 2] radius colour mix))))) = set cube_corners"
    unfolding P corners endpoints_def by auto
  have c: "map (\<lambda>c. edges_at c (mem (points_buffer (snd (Box_init [2, 2, 2] radius colour mix))))) cube_corners
     = [3, 3, 3, 3, 3, 3, 3, 3]"
    unfolding P corners edges_at_def by simp
  have d: "length cube_corners = 8 \<and> distinct cube_corners"
    unfolding corners by simp
  show ?thesis using ok s c d by (simp add: P)
qed

text \<open>
  Claim C5. For a box (a geometry whose points buffer has the twelve rows of its edges)
  and a box parameter \<open>b\<close> of length 1, 3 or 6, the assignment \<open>g.box = b\<close> succeeds and
  leaves in the points buffer the points of a freshly constructed \<open>Box(scene, box=b)\<close>,
  whatever radius and colour that one is given; the radius buffer and the colour buffer
  are as they were before the assignment, and \<open>g.box\<close> reads \<open>b\<close>.
\<close>

theorem box_reassign_regenerates:
  assumes "length b = 1 \<or> length b = 3 \<or> length b = 6"
    and "length (mem (points_buffer self)) = 12"
  shows "fst (Box_set_box b self) = Inr () \<and>
         fst (Box_init b radius colour mix) = Inr () \<and>
         mem (points_buffer (snd (Box_set_box b self))) =
           mem (points_buffer (snd (Box_init b radius colour mix))) \<and>
         radius_buffer (snd (Box_set_box b self)) = radius_buffer self \<and>
         color_buffer (snd (Box_set_box b self)) = color_buffer self \<and>
         Box_box (snd (Box_set_box b self)) = b"
proof -
  from assms(1) obtain pts where g: "generate_points b = Inr pts" and l: "length pts = 12"
    using generate_points_accepts by blast
  have "Box_set_box b self =
      (Inr (), self\<lparr>box_param := b,
                    points_buffer := (points_buffer self)\<lparr>mem := pts, mapped := False\<rparr>,
                    update_calls := Suc (update_calls self)\<rparr>)"
    using g l assms(2) by (simp add: Box_set_box_def Box_points_setitem_Full_Rows)
  moreover note Box_init_ok [OF g l, of radius colour mix]
  ultimately show ?thesis by (simp add: box_after_def Box_box_def)
qed

text \<open>
  The cubic box of edge 1 with radius 0.1 and red edges, reassigned to the orthorhombic
  parameter \<open>[2, 3, 4]\<close>: the points change to those of a fresh box, radius and colour
  stay.
\<close>

theorem box_reassign_regenerates_witness:
  "length (mem (points_buffer unit_box)) = 12 \<and>
   fst (Box_set_box [2, 3, 4] unit_box) = Inr () \<and>
   mem (points_buffer (snd (Box_set_box [2, 3, 4] unit_box))) =
     mem (points_buffer (snd (Box_init [2, 3, 4] None None 0))) \<and>
   mem (points_buffer (snd (Box_set_box [2, 3, 4] unit_box))) \<noteq> mem (points_buffer unit_box) \<and>
   radius_buffer (snd (Box_set_box [2, 3, 4] unit_box)) = radius_buffer unit_box \<and>
   color_buffer (snd (Box_set_box [2, 3, 4] unit_box)) = color_buffer unit_box"
proof -
  have g': "generate_points [2, 3, 4] = Inr (box_edges 2 3 4 0 0 0)"
    by (simp add: generate_points_def)
  have p': "mem (points_buffer (snd (Box_init [2, 3, 4] None None 0))) = box_edges 2 3 4 0 0 0"
    by (simp add: Box_init_ok [OF g' length_box_edges] box_after_def)
  have d: "box_edges 2 3 4 0 0 0 \<noteq> box_edges 1 1 1 0 0 0"
    by (simp add: box_edges_def transpose3_def Let_def)
  from box_reassign_regenerates [of "[2, 3, 4]" unit_box None None 0] unit_box_rows
  show ?thesis using unit_box_points p' d by simp
qed

text \<open>
  Claim C8. Constructing a box whose parameter has a length other than 1, 3 or 6 raises
  the \<open>RuntimeError\<close> of \<open>_generate_points\<close>, and at that point the three buffers are
  still as the backend created them and no \<open>update()\<close> has been issued. A parameter of
  length 1 is accepted and read as cubic, one of length 3 as orthorhombic and one of
  length 6 as triclinic.
\<close>

theorem box_length_check:
  "(length b \<noteq> 1 \<and> length b \<noteq> 3 \<and> length b \<noteq> 6 \<longrightarrow>
      fst (Box_init b radius colour mix) = Inl RuntimeError \<and>
      points_buffer (snd (Box_init b radius colour mix)) = fresh_buffer 12 (zero3, zero3) \<and>
      radius_buffer (snd (Box_init b radius colour mix)) = fresh_buffer 12 0 \<and>
      color_buffer (snd (Box_init b radius colour mix)) = fresh_buffer 12 (zero3, zero3) \<and>
      update_calls (snd (Box_init b radius colour mix)) = 0) \<and>
   (length b = 1 \<longrightarrow>
      fst (Box_init b radius colour mix) = Inr () \<and>
      mem (points_buffer (snd (Box_init b radius colour mix))) =
        box_edges (b ! 0) (b ! 0) (b ! 0) 0 0 0) \<and>
   (length b = 3 \<longrightarrow>
      fst (Box_init b radius colour mix) = Inr () \<and>
      mem (points_buffer (snd (Box_init b radius colour mix))) =
        box_edges (b ! 0) (b ! 1) (b ! 2) 0 0 0) \<and>
   (length b = 6 \<longrightarrow>
      fst (Box_init b radius colour mix) = Inr () \<and>
      mem (points_buffer (snd (Box_init b radius colour mix))) =
        box_edges (b ! 0) (b ! 1) (b ! 2) (b ! 3) (b ! 4) (b ! 5))"
proof (intro conjI impI)
  assume "length b \<noteq> 1 \<and> length b \<noteq> 3 \<and> length b \<noteq> 6"
  then have g: "generate_points b = Inl RuntimeError"
    by (simp add: generate_points_rejects)
  note bad = Box_init_bad [OF g, of radius colour mix]
  show "fst (Box_init b radius colour mix) = Inl RuntimeError" by (simp add: bad)
  show "points_buffer (snd (Box_init b radius colour mix)) = fresh_buffer 12 (zero3, zero3)"
    by (simp add: bad GeometryCylinder_def cylinder.extend_def)
  show "radius_buffer (snd (Box_init b radius colour mix)) = fresh_buffer 12 0"
    by (simp add: bad GeometryCylinder_def cylinder.extend_def)
  show "color_buffer (snd (Box_init b radius colour mix)) = fresh_buffer 12 (zero3, zero3)"
    by (simp add: bad GeometryCylinder_def cylinder.extend_def)
  show "update_calls (snd (Box_init b radius colour mix)) = 0"
    by (simp add: bad GeometryCylinder_def cylinder.extend_def)
next
  assume l: "length b = 1"
  then have g: "generate_points b = Inr (box_edges (b ! 0) (b ! 0) (b ! 0) 0 0 0)"
    by (simp add: generate_points_def)
  note ok = Box_init_ok [OF g length_box_edges, of radius colour mix]
  show "fst (Box_init b radius colour mix) = Inr ()" by (simp add: ok)
  show "mem (points_buffer (snd (Box_init b radius colour mix))) =
        box_edges (b ! 0) (b ! 0) (b ! 0) 0 0 0" by (simp add: ok box_after_def)
next
  assume l: "length b = 3"
  then have g: "generate_points b = Inr (box_edges (b ! 0) (b ! 1) (b ! 2) 0 0 0)"
    by (simp add: generate_points_def)
  note ok = Box_init_ok [OF g length_box_edges, of radius colour mix]
  show "fst (Box_init b radius colour mix) = Inr ()" by (simp add: ok)
  show "mem (points_buffer (snd (Box_init b radius colour mix))) =
        box_edges (b ! 0) (b ! 1) (b ! 2) 0 0 0" by (simp add: ok box_after_def)
next
  assume l: "length b = 6"
  then have g: "generate_points b = Inr (box_edges (b ! 0) (b ! 1) (b ! 2) (b ! 3) (b ! 4) (b ! 5))"
    by (simp add: generate_points_def)
  note ok = Box_init_ok [OF g length_box_edges, of radius colour mix]
  show "fst (Box_init b radius colour mix) = Inr ()" by (simp add: ok)
  show "mem (points_buffer (snd (Box_init b radius colour mix))) =
        box_edges (b ! 0) (b ! 1) (b ! 2) (b ! 3) (b ! 4) (b ! 5)" by (simp add: ok box_after_def)
qed

text \<open>Parameters of length 2 and 0 are rejected; lengths 1, 3 and 6 are accepted.\<close>

theorem box_length_check_witness:
  "fst (Box_init [2, 2] None None 0) = Inl RuntimeError \<and>
   points_buffer (snd (Box_init [2, 2] None None 0)) = fresh_buffer 12 (zero3, zero3) \<and>
   fst (Box_init [] None None 0) = Inl RuntimeError \<and>
   fst (Box_init [5] None None 0) = Inr () \<and>
   fst (Box_init [1, 2, 3] None None 0) = Inr () \<and>
   fst (Box_init [1, 2, 3, 0, 0, 1 / 2] None None 0) = Inr ()"
  using box_length_check [of "[2, 2]" None None 0] box_length_check [of "[]" None None 0]
    box_length_check [of "[5]" None None 0] box_length_check [of "[1, 2, 3]" None None 0]
    box_length_check [of "[1, 2, 3, 0, 0, 1 / 2]" None None 0]
  by simp

text \<open>
  Claim C10. When a box is constructed with a colour, the constructor fills the colour
  buffer with it and, in addition, sets \<open>primitive_color_mix\<close> of the geometry's material
  to 1. Without a colour the colour buffer keeps its initial zeros and
  \<open>primitive_color_mix\<close> is the one of the default material.
\<close>

theorem box_color_sets_mix:
  "(length b = 1 \<or> length b = 3 \<or> length b = 6 \<longrightarrow>
      fst (Box_init b radius (Some c) mix) = Inr () \<and>
      mem (color_buffer (snd (Box_init b radius (Some c) mix))) = replicate 12 (c, c) \<and>
      primitive_color_mix (geometry_material (snd (Box_init b radius (Some c) mix))) = 1 \<and>
      fst (Box_init b radius None mix) = Inr ()) \<and>
   mem (color_buffer (snd (Box_init b radius None mix))) = replicate 12 (zero3, zero3) \<and>
   primitive_color_mix (geometry_material (snd (Box_init b radius None mix))) =
     primitive_color_mix (default_material mix)"
proof (intro conjI impI)
  assume "length b = 1 \<or> length b = 3 \<or> length b = 6"
  then obtain pts where g: "generate_points b = Inr pts" and l: "length pts = 12"
    using generate_points_accepts by blast
  note ok = Box_init_ok [OF g l]
  show "fst (Box_init b radius (Some c) mix) = Inr ()" by (simp add: ok)
  show "mem (color_buffer (snd (Box_init b radius (Some c) mix))) = replicate 12 (c, c)"
    by (simp add: ok box_after_def)
  show "primitive_color_mix (geometry_material (snd (Box_init b radius (Some c) mix))) = 1"
    by (simp add: ok box_after_def)
  show "fst (Box_init b radius None mix) = Inr ()" by (simp add: ok)
next
  show "mem (color_buffer (snd (Box_init b radius None mix))) = replicate 12 (zero3, zero3)"
  proof (cases "generate_points b")
    case (Inl e)
    then show ?thesis
      by (simp add: Box_init_bad GeometryCylinder_def cylinder.extend_def fresh_buffer_def)
  next
    case (Inr pts)
    then show ?thesis
      by (simp add: Box_init_ok [OF Inr generate_points_rows [OF Inr]] box_after_def)
  qed
next
  show "primitive_color_mix (geometry_material (snd (Box_init b radius None mix))) =
     primitive_color_mix (default_material mix)"
  proof (cases "generate_points b")
    case (Inl e)
    then show ?thesis
      by (simp add: Box_init_bad GeometryCylinder_def cylinder.extend_def default_material_def)
  next
    case (Inr pts)
    then show ?thesis
      by (simp add: Box_init_ok [OF Inr generate_points_rows [OF Inr]] box_after_def
          default_material_def)
  qed
qed

text \<open>
  The box \<open>[2, 2, 2]\<close> with red edges has the mix 1; without a colour it has the mix of
  the default material, here 0.
\<close>

theorem box_color_sets_mix_witness:
  "fst (Box_init [2, 2, 2] None (Some (1, 0, 0)) 0) = Inr () \<and>
   primitive_color_mix (geometry_material (snd (Box_init [2, 2, 2] None (Some (1, 0, 0)) 0))) = 1 \<and>
   mem (color_buffer (snd (Box_init [2, 2, 2] None (Some (1, 0, 0)) 0))) =
     replicate 12 ((1, 0, 0), (1, 0, 0)) \<and>
   primitive_color_mix (geometry_material (snd (Box_init [2, 2, 2] None None 0))) = 0"
  using box_color_sets_mix [of "[2, 2, 2]" None "(1, 0, 0)" 0]
  by (simp add: default_material_def)

section \<open>Extents\<close>

text \<open>
  Claim C6. On the mesh of the single triangle \<open>[[0,0,0],[1,0,0],[0,5,0]]\<close> with one
  instance at the origin, \<open>Mesh.get_extents\<close> returns \<open>[[0,0,0],[5,5,5]]\<close>: the least and
  the greatest of all vertex coordinates, whatever their axis, are added to every axis of
  the positions. The bounding box that the claim describes, with the vertex range taken
  per axis, is \<open>[[0,0,0],[1,5,0]]\<close>.
\<close>

theorem mesh_extents_mix_axes:
  "fst (Mesh_get_extents one_triangle) = Inr ((0, 0, 0), (5, 5, 5)) \<and>
   translated_bbox (vertices one_triangle) (mem (position_buffer one_triangle)) =
     ((0, 0, 0), (1, 5, 0))"
proof -
  have "fst (Mesh_get_extents one_triangle) = Inr ((0, 0, 0), (5, 5, 5))"
    by (simp add: one_triangle_def Mesh_get_extents_def template_range_def bind_err_def
        and_then_def position_getitem_def array_getitem_def Mesh_position_def store_position_def
        geom_calls_def buffer_map_def buffer_unmap_def np_getitem_Full)
  moreover have "translated_bbox (vertices one_triangle) (mem (position_buffer one_triangle)) =
     ((0, 0, 0), (1, 5, 0))"
    by (simp add: one_triangle_def translated_bbox_def)
  ultimately show ?thesis by simp
qed

text \<open>
  Claim C7. For a cylinder geometry with at least one cylinder (and, as the backend sizes
  them, as many radii as rows of points), \<open>get_extents\<close> returns, per axis, the minimum
  over all cylinders and both endpoints of the endpoint coordinate minus that cylinder's
  radius, and the maximum of the coordinate plus the radius. In particular
  \<open>Cylinder(scene, points=[[[0,0,0],[1,0,0]]], radius=[0.5])\<close>, for which
  \<open>N = len(points) = 1\<close>, has the extents \<open>[[-0.5,-0.5,-0.5],[1.5,0.5,0.5]]\<close>.
\<close>

theorem cylinder_extents_inflate_endpoints:
  "(mem (points_buffer self) \<noteq> [] \<and>
    length (mem (radius_buffer self)) = length (mem (points_buffer self)) \<longrightarrow>
      fst (Cylinder_get_extents self) =
        Inr ((inflated_low vx (mem (points_buffer self)) (mem (radius_buffer self)),
              inflated_low vy (mem (points_buffer self)) (mem (radius_buffer self)),
              inflated_low vz (mem (points_buffer self)) (mem (radius_buffer self))),
             (inflated_high vx (mem (points_buffer self)) (mem (radius_buffer self)),
              inflated_high vy (mem (points_buffer self)) (mem (radius_buffer self)),
              inflated_high vz (mem (points_buffer self)) (mem (radius_buffer self))))) \<and>
   Cylinder_N (Some [((0, 0, 0), (1, 0, 0))]) None = Inr 1 \<and>
   fst (Cylinder_init 1 (Some [((0, 0, 0), (1, 0, 0))]) (Some (Rows [1 / 2])) None m om w) = Inr () \<and>
   fst (Cylinder_get_extents
         (snd (Cylinder_init 1 (Some [((0, 0, 0), (1, 0, 0))]) (Some (Rows [1 / 2])) None m om w))) =
     Inr ((- 1 / 2, - 1 / 2, - 1 / 2), (3 / 2, 1 / 2, 1 / 2))"
proof (intro conjI impI)
  assume "mem (points_buffer self) \<noteq> [] \<and>
    length (mem (radius_buffer self)) = length (mem (points_buffer self))"
  then show "fst (Cylinder_get_extents self) =
        Inr ((inflated_low vx (mem (points_buffer self)) (mem (radius_buffer self)),
              inflated_low vy (mem (points_buffer self)) (mem (radius_buffer self)),
              inflated_low vz (mem (points_buffer self)) (mem (radius_buffer self))),
             (inflated_high vx (mem (points_buffer self)) (mem (radius_buffer self)),
              inflated_high vy (mem (points_buffer self)) (mem (radius_buffer self)),
              inflated_high vz (mem (points_buffer self)) (mem (radius_buffer self))))"
    by (simp add: Cylinder_get_extents_value extents_of_rows)
next
  show "Cylinder_N (Some [((0, 0, 0), (1, 0, 0))]) None = Inr 1"
    by (simp add: Cylinder_N_def)
next
  show "fst (Cylinder_init 1 (Some [((0, 0, 0), (1, 0, 0))]) (Some (Rows [1 / 2])) None m om w) = Inr ()"
    by (simp add: Cylinder_init_points_radius)
next
  show "fst (Cylinder_get_extents
         (snd (Cylinder_init 1 (Some [((0, 0, 0), (1, 0, 0))]) (Some (Rows [1 / 2])) None m om w))) =
     Inr ((- 1 / 2, - 1 / 2, - 1 / 2), (3 / 2, 1 / 2, 1 / 2))"
    by (simp add: Cylinder_init_points_radius Cylinder_get_extents_value extents_of_def
        bind_err_def broadcast_rows_def)
qed

text \<open>
  Two cylinders of different radii: the extents that the code returns are the inflated
  bounds, \<open>[[-1,-0.5,-1],[1.5,3,4]]\<close>.
\<close>

theorem cylinder_extents_inflate_endpoints_witness:
  "mem (points_buffer two_cylinders) \<noteq> [] \<and>
   length (mem (radius_buffer two_cylinders)) = length (mem (points_buffer two_cylinders)) \<and>
   fst (Cylinder_get_extents two_cylinders) = Inr ((- 1, - 1 / 2, - 1), (3 / 2, 3, 4)) \<and>
   inflated_low vx (mem (points_buffer two_cylinders)) (mem (radius_buffer two_cylinders)) = - 1 \<and>
   inflated_low vy (mem (points_buffer two_cylinders)) (mem (radius_buffer two_cylinders)) = - 1 / 2 \<and>
   inflated_low vz (mem (points_buffer two_cylinders)) (mem (radius_buffer two_cylinders)) = - 1 \<and>
   inflated_high vx (mem (points_buffer two_cylinders)) (mem (radius_buffer two_cylinders)) = 3 / 2 \<and>
   inflated_high vy (mem (points_buffer two_cylinders)) (mem (radius_buffer two_cylinders)) = 3 \<and>
   inflated_high vz (mem (points_buffer two_cylinders)) (mem (radius_buffer two_cylinders)) = 4"
proof -
  have h: "mem (points_buffer two_cylinders) \<noteq> [] \<and>
    length (mem (radius_buffer two_cylinders)) = length (mem (points_buffer two_cylinders))"
    by (simp add: two_cylinders_mem)
  from cylinder_extents_inflate_endpoints [of two_cylinders] h
  have "fst (Cylinder_get_extents two_cylinders) =
        Inr ((inflated_low vx (mem (points_buffer two_cylinders)) (mem (radius_buffer two_cylinders)),
              inflated_low vy (mem (points_buffer two_cylinders)) (mem (radius_buffer two_cylinders)),
              inflated_low vz (mem (points_buffer two_cylinders)) (mem (radius_buffer two_cylinders))),
             (inflated_high vx (mem (points_buffer two_cylinders)) (mem (radius_buffer two_cylinders)),
              inflated_high vy (mem (points_buffer two_cylinders)) (mem (radius_buffer two_cylinders)),
              inflated_high vz (mem (points_buffer two_cylinders)) (mem (radius_buffer two_cylinders))))"
    by blast
  with two_cylinders_extents h show ?thesis by simp
qed

text \<open>
  Claim C9, as stated, fails: \<open>get_extents\<close> has no guard for \<open>N = 0\<close>. On
  \<open>Cylinder(scene, N=0)\<close> the reduction runs over no rows and the \<open>ValueError\<close> that
  numpy raises for it leaves \<open>get_extents\<close> as it is.
\<close>

theorem empty_cylinder_extents_raise:
  "fst (Cylinder_get_extents
         (snd (Cylinder_init 0 None None None (default_material 0) (default_outline_material 0) 0))) =
     Inl ValueError"
  by (simp add: Cylinder_init_bare Cylinder_get_extents_value GeometryCylinder_def
      fresh_buffer_def extents_of_empty)

text \<open>
  Claim C9, amended. On a cylinder geometry with \<open>N = 0\<close> the call \<open>get_extents()\<close> is not
  guarded: it returns no extents but lets numpy's \<open>ValueError\<close> for the reduction over
  no rows through to the caller. The contents of the buffers are not changed by the call.
\<close>

theorem cylinder_extents_unguarded:
  "mem (points_buffer self) = [] \<longrightarrow>
     fst (Cylinder_get_extents self) = Inl ValueError \<and>
     mem (points_buffer (snd (Cylinder_get_extents self))) = mem (points_buffer self) \<and>
     mem (radius_buffer (snd (Cylinder_get_extents self))) = mem (radius_buffer self)"
  by (simp add: Cylinder_get_extents_def and_then_def points_getitem_Full radius_getitem_Full
      extents_of_empty)

text \<open>\<open>Cylinder(scene, points=[])\<close> has \<open>N = len(points) = 0\<close>, and its extents raise.\<close>

theorem cylinder_extents_unguarded_witness:
  "Cylinder_N (Some ([] :: (vec3 \<times> vec3) list)) None = Inr 0 \<and>
   mem (points_buffer no_cylinders) = [] \<and>
   fst (Cylinder_get_extents no_cylinders) = Inl ValueError"
  using cylinder_extents_unguarded [of no_cylinders] no_cylinders_mem
  by (simp add: Cylinder_N_def)

end
